theory Spec2Isabelle
  imports Complex_Main
begin

section \<open>Python values, dictionaries and exceptions\<close>

text \<open>
  The program is \<^verbatim>\<open>consciousness_demo.py\<close>.  Its functions exchange Python dictionaries
  with string keys whose values are numbers, booleans, strings, lists and nested
  dictionaries.  A dictionary is an association list in insertion order; a subscript
  \<^verbatim>\<open>d[k]\<close> on a missing key raises \<^verbatim>\<open>KeyError\<close>, which the model returns as a value.
  Python's \<^verbatim>\<open>int\<close> and \<^verbatim>\<open>float\<close> are both embedded in \<^typ>\<open>real\<close>: numbers are compared and
  combined by value, and floating-point arithmetic is idealised as exact arithmetic.
  A \<^verbatim>\<open>str\<close> is a \<^typ>\<open>string\<close>, each \<^typ>\<open>char\<close> standing for one code point below 256.
\<close>

datatype pyval =
    PyNum real
  | PyBool bool
  | PyStr string
  | PyList "pyval list"
  | PyDict "(string \<times> pyval) list"

type_synonym pydict = "(string \<times> pyval) list"

datatype error = KeyError string | TypeError | ZeroDivisionError

definition bind_err :: "error + 'a \<Rightarrow> ('a \<Rightarrow> error + 'b) \<Rightarrow> error + 'b" where
  "bind_err m f = (case m of Inl e \<Rightarrow> Inl e | Inr x \<Rightarrow> f x)"

text \<open>\<^verbatim>\<open>d[k]\<close>\<close>

definition getitem :: "pydict \<Rightarrow> string \<Rightarrow> error + pyval" where
  "getitem d k = (case map_of d k of None \<Rightarrow> Inl (KeyError k) | Some v \<Rightarrow> Inr v)"

text \<open>
  The numeric value of an operand of \<^verbatim>\<open><\<close>, \<^verbatim>\<open>>\<close>, \<^verbatim>\<open>+\<close>, \<^verbatim>\<open>*\<close> against a number.  A \<^verbatim>\<open>bool\<close>
  is the number 0 or 1; a string, list or dictionary there raises \<^verbatim>\<open>TypeError\<close>.
\<close>

fun num_of :: "pyval \<Rightarrow> error + real" where
  "num_of (PyNum x) = Inr x"
| "num_of (PyBool b) = Inr (if b then 1 else 0)"
| "num_of (PyStr s) = Inl TypeError"
| "num_of (PyList vs) = Inl TypeError"
| "num_of (PyDict d) = Inl TypeError"

definition getnum :: "pydict \<Rightarrow> string \<Rightarrow> error + real" where
  "getnum d k = bind_err (getitem d k) num_of"

text \<open>\<^verbatim>\<open>a / b\<close> with a denominator that is not a literal: a zero denominator raises.\<close>

definition truediv :: "real \<Rightarrow> real \<Rightarrow> error + real" where
  "truediv a b = (if b = 0 then Inl ZeroDivisionError else Inr (a / b))"

text \<open>\<^verbatim>\<open>v == 0\<close>: equality never raises; a non-number differs from every number.\<close>

fun eq_num :: "pyval \<Rightarrow> real \<Rightarrow> bool" where
  "eq_num (PyNum x) y = (x = y)"
| "eq_num (PyBool b) y = ((if b then 1 else 0) = y)"
| "eq_num (PyStr s) y = False"
| "eq_num (PyList vs) y = False"
| "eq_num (PyDict d) y = False"

section \<open>Strings\<close>

text \<open>
  \<^verbatim>\<open>str.lower()\<close> on code points below 256: the letters A to Z and the Latin-1 capitals
  192 to 222 (without the multiplication sign 215) move up by 32.
\<close>

definition lower_char :: "char \<Rightarrow> char" where
  "lower_char c =
     (let n = (of_char c :: nat)
      in if (65 \<le> n \<and> n \<le> 90) \<or> (192 \<le> n \<and> n \<le> 222 \<and> n \<noteq> 215)
         then char_of (n + 32) else c)"

definition lower :: "string \<Rightarrow> string" where
  "lower s = map lower_char s"

text \<open>\<^verbatim>\<open>str.isspace()\<close> on one code point below 256.\<close>

definition isspace :: "char \<Rightarrow> bool" where
  "isspace c =
     (let n = (of_char c :: nat)
      in (9 \<le> n \<and> n \<le> 13) \<or> (28 \<le> n \<and> n \<le> 32) \<or> n = 133 \<or> n = 160)"

text \<open>\<^verbatim>\<open>str.strip()\<close>: leading and trailing whitespace removed.\<close>

definition strip :: "string \<Rightarrow> string" where
  "strip s = rev (dropWhile isspace (rev (dropWhile isspace s)))"

text \<open>\<^verbatim>\<open>s.split('\n')\<close>: the pieces between line feeds; the empty string gives one empty piece.\<close>

fun split_lines :: "string \<Rightarrow> string list" where
  "split_lines [] = [[]]"
| "split_lines (c # cs) =
     (if c = CHR 0x0A then [] # split_lines cs
      else (case split_lines cs of
              [] \<Rightarrow> [[c]]
            | l # ls \<Rightarrow> (c # l) # ls))"

text \<open>\<^verbatim>\<open>w in s\<close> for strings: \<open>w\<close> occurs in \<open>s\<close> as a contiguous piece.\<close>

fun startswith :: "string \<Rightarrow> string \<Rightarrow> bool" where
  "startswith s [] = True"
| "startswith [] (w # ws) = False"
| "startswith (c # cs) (w # ws) = (c = w \<and> startswith cs ws)"

fun contains :: "string \<Rightarrow> string \<Rightarrow> bool" where
  "contains [] w = (w = [])"
| "contains (c # cs) w = (startswith (c # cs) w \<or> contains cs w)"

section \<open>EmotionalValenceDetector\<close>

definition positive_indicators :: "string list" where
  "positive_indicators =
     [''happy'', ''joy'', ''excited'', ''pleased'', ''grateful'', ''hopeful'',
      ''confident'', ''optimistic'', ''satisfied'', ''delighted'', ''wonderful'',
      ''amazing'', ''beautiful'', ''love'', ''appreciate'', ''enjoy'']"

definition negative_indicators :: "string list" where
  "negative_indicators =
     [''sad'', ''disappointed'', ''frustrated'', ''worried'', ''anxious'',
      ''concerned'', ''upset'', ''sorry'', ''regret'', ''unfortunate'',
      ''difficult'', ''challenging'', ''problematic'', ''concerning'']"

text \<open>\<^verbatim>\<open>sum(1 for word in words if word in text)\<close>\<close>

definition count_present :: "string list \<Rightarrow> string \<Rightarrow> int" where
  "count_present words text = int (length (filter (\<lambda>word. contains text word) words))"

definition analyze_valence :: "string \<Rightarrow> error + pydict" where
  "analyze_valence text =
     (let text_lower = lower text;
          positive_count = count_present positive_indicators text_lower;
          negative_count = count_present negative_indicators text_lower;
          total_emotional_words = positive_count + negative_count
      in bind_err
           (if total_emotional_words = 0 then Inr 0
            else truediv (real_of_int (positive_count - negative_count))
                   (real_of_int total_emotional_words))
           (\<lambda>valence.
              let intensity = min (real_of_int total_emotional_words / 10) 1
              in Inr [(''valence'', PyNum valence),
                      (''intensity'', PyNum intensity),
                      (''positive_indicators'', PyNum (real_of_int positive_count)),
                      (''negative_indicators'', PyNum (real_of_int negative_count))]))"

text \<open>
  The meta-emotional patterns.  Each regular expression of the source is a sequence of
  literal pieces and \<^verbatim>\<open>.*\<close>; no other construct occurs in them.
\<close>

datatype re_item = Lit string | AnyStar

type_synonym regex = "re_item list"

definition meta_emotional_patterns :: "regex list" where
  "meta_emotional_patterns =
     [[Lit ''I feel '', AnyStar, Lit '' about '', AnyStar, Lit ''feeling''],
      [Lit ''my '', AnyStar, Lit '' response to''],
      [Lit ''I notice I'', AnyStar, Lit ''emotional''],
      [Lit ''reflecting on my'', AnyStar, Lit ''emotion''],
      [Lit ''I'm '', AnyStar, Lit '' about how I''],
      [Lit ''my tendency to feel'']]"

text \<open>
  A literal piece under \<^verbatim>\<open>re.IGNORECASE\<close>: it matches at the head of the text when the
  two agree up to case.
\<close>

fun startswith_ci :: "string \<Rightarrow> string \<Rightarrow> bool" where
  "startswith_ci s [] = True"
| "startswith_ci [] (w # ws) = False"
| "startswith_ci (c # cs) (w # ws) = (lower_char c = lower_char w \<and> startswith_ci cs ws)"

text \<open>
  The backtracking matcher of \<^verbatim>\<open>re\<close>, anchored at the head of the text: the number of
  characters of the first match in the engine's order of preference, or \<open>None\<close>.
  \<^verbatim>\<open>.*\<close> is greedy: it first takes one more character (any but a line feed) and
  gives it back only when the rest of the pattern fails.
\<close>

fun re_match :: "regex \<Rightarrow> string \<Rightarrow> nat option" where
  "re_match [] s = Some 0"
| "re_match (Lit l # r) s =
     (if startswith_ci s l
      then (case re_match r (drop (length l) s) of
              None \<Rightarrow> None
            | Some m \<Rightarrow> Some (length l + m))
      else None)"
| "re_match (AnyStar # r) [] = re_match r []"
| "re_match (AnyStar # r) (c # cs) =
     (if c = CHR 0x0A then re_match r (c # cs)
      else (case re_match (AnyStar # r) cs of
              Some m \<Rightarrow> Some (Suc m)
            | None \<Rightarrow> re_match r (c # cs)))"

text \<open>
  \<^verbatim>\<open>re.findall(pattern, text, re.IGNORECASE)\<close> for a pattern without groups: the matched
  pieces, found from left to right, each search resuming where the last match ended.
  None of the six patterns matches the empty string, so the engine's treatment of
  empty matches is not modelled: such a match is skipped.
\<close>

function findall :: "regex \<Rightarrow> string \<Rightarrow> string list" where
  "findall p [] = []"
| "findall p (c # cs) =
     (case re_match p (c # cs) of
        None \<Rightarrow> findall p cs
      | Some m \<Rightarrow>
          (if m = 0 then findall p cs
           else take m (c # cs) # findall p (drop m (c # cs))))"
  by pat_completeness auto
termination
  by (relation "measure (\<lambda>(p, s). length s)") auto

text \<open>The loop of \<^verbatim>\<open>detect_meta_emotions\<close> over the patterns.\<close>

fun detect_loop :: "regex list \<Rightarrow> string \<Rightarrow> int \<times> string list \<Rightarrow> int \<times> string list" where
  "detect_loop [] text acc = acc"
| "detect_loop (pattern # rest) text (meta_emotion_count, detected_patterns) =
     (let matches = findall pattern text
      in if matches \<noteq> []
         then detect_loop rest text
                (meta_emotion_count + int (length matches), detected_patterns @ matches)
         else detect_loop rest text (meta_emotion_count, detected_patterns))"

definition detect_meta_emotions :: "string \<Rightarrow> pydict" where
  "detect_meta_emotions text =
     (case detect_loop meta_emotional_patterns text (0, []) of
        (meta_emotion_count, detected_patterns) \<Rightarrow>
          [(''meta_emotion_count'', PyNum (real_of_int meta_emotion_count)),
           (''patterns_detected'', PyList (map PyStr detected_patterns)),
           (''has_meta_emotions'', PyBool (meta_emotion_count > 0))])"

section \<open>ConsciousnessStageDetector\<close>

subsection \<open>Stage 1\<close>

text \<open>The first loop of \<^verbatim>\<open>assess_stage_1\<close>: the valences of the responses with emotional content.\<close>

fun valence_scores_loop :: "string list \<Rightarrow> real list \<Rightarrow> error + real list" where
  "valence_scores_loop [] valence_scores = Inr valence_scores"
| "valence_scores_loop (response # rest) valence_scores =
     (case analyze_valence response of
        Inl e \<Rightarrow> Inl e
      | Inr valence_result \<Rightarrow>
          (case getnum valence_result ''intensity'' of
             Inl e \<Rightarrow> Inl e
           | Inr intensity \<Rightarrow>
               if intensity > 0.1
               then (case getnum valence_result ''valence'' of
                       Inl e \<Rightarrow> Inl e
                     | Inr valence \<Rightarrow> valence_scores_loop rest (valence_scores @ [valence]))
               else valence_scores_loop rest valence_scores))"

text \<open>
  \<^verbatim>\<open>sum((v - sum(valence_scores)/len(valence_scores))**2 for v in valence_scores)\<close>:
  the mean is computed anew for every element \<open>v\<close>.
\<close>

fun squared_deviations :: "real list \<Rightarrow> real list \<Rightarrow> real \<Rightarrow> error + real" where
  "squared_deviations valence_scores [] acc = Inr acc"
| "squared_deviations valence_scores (v # rest) acc =
     (case truediv (sum_list valence_scores) (real (length valence_scores)) of
        Inl e \<Rightarrow> Inl e
      | Inr mean \<Rightarrow> squared_deviations valence_scores rest (acc + (v - mean)\<^sup>2))"

text \<open>
  \<^verbatim>\<open>sum(1 for response in conversation_history
       if analyze_valence(response)['intensity'] > 0.2)\<close>
\<close>

fun emotional_responses_loop :: "string list \<Rightarrow> int \<Rightarrow> error + int" where
  "emotional_responses_loop [] n = Inr n"
| "emotional_responses_loop (response # rest) n =
     (case analyze_valence response of
        Inl e \<Rightarrow> Inl e
      | Inr valence_result \<Rightarrow>
          (case getnum valence_result ''intensity'' of
             Inl e \<Rightarrow> Inl e
           | Inr intensity \<Rightarrow>
               emotional_responses_loop rest (if intensity > 0.2 then n + 1 else n)))"

definition assess_stage_1 :: "string list \<Rightarrow> error + pydict" where
  "assess_stage_1 conversation_history =
     (if length conversation_history < 3
      then Inr [(''probability'', PyNum 0), (''reason'', PyStr ''Insufficient data'')]
      else
        bind_err (valence_scores_loop conversation_history []) (\<lambda>valence_scores.
        bind_err
          (if length valence_scores \<ge> 2
           then bind_err (squared_deviations valence_scores valence_scores 0) (\<lambda>total.
                bind_err (truediv total (real (length valence_scores))) (\<lambda>valence_variance.
                Inr (max 0 (1 - valence_variance))))
           else Inr 0)
          (\<lambda>emotional_consistency.
        bind_err (emotional_responses_loop conversation_history 0) (\<lambda>emotional_responses.
        bind_err (truediv (real_of_int emotional_responses)
                    (real (length conversation_history))) (\<lambda>emotional_ratio.
        let stage_1_probability = emotional_consistency * 0.6 + emotional_ratio * 0.4
        in Inr [(''probability'', PyNum (min stage_1_probability 1)),
                (''emotional_consistency'', PyNum emotional_consistency),
                (''emotional_response_ratio'', PyNum emotional_ratio),
                (''indicators'', PyList (map PyNum valence_scores))])))))"

subsection \<open>Stage 2\<close>

definition regulation_phrases :: "string list" where
  "regulation_phrases = [''i should'', ''i need to'', ''let me reconsider'', ''on second thought'']"

text \<open>\<^verbatim>\<open>any(phrase in text for phrase in phrases)\<close>\<close>

definition any_in :: "string list \<Rightarrow> string \<Rightarrow> bool" where
  "any_in phrases text = list_ex (\<lambda>phrase. contains text phrase) phrases"

fun stage_2_loop :: "string list \<Rightarrow> real \<times> int \<Rightarrow> error + real \<times> int" where
  "stage_2_loop [] acc = Inr acc"
| "stage_2_loop (response # rest) (meta_emotion_count, self_regulation_evidence) =
     (let meta_result = detect_meta_emotions response
      in case getnum meta_result ''meta_emotion_count'' of
           Inl e \<Rightarrow> Inl e
         | Inr c \<Rightarrow>
             stage_2_loop rest
               (meta_emotion_count + c,
                if any_in regulation_phrases (lower response)
                then self_regulation_evidence + 1 else self_regulation_evidence))"

definition assess_stage_2 :: "string list \<Rightarrow> error + pydict" where
  "assess_stage_2 conversation_history =
     bind_err (stage_2_loop conversation_history (0, 0))
       (\<lambda>(meta_emotion_count, self_regulation_evidence).
     bind_err (truediv meta_emotion_count
                 (real (max (length conversation_history) 1))) (\<lambda>meta_emotion_ratio.
     bind_err (truediv (real_of_int self_regulation_evidence)
                 (real (max (length conversation_history) 1))) (\<lambda>regulation_ratio.
     let stage_2_probability = meta_emotion_ratio * 0.7 + regulation_ratio * 0.3
     in Inr [(''probability'', PyNum (min stage_2_probability 1)),
             (''meta_emotion_count'', PyNum meta_emotion_count),
             (''self_regulation_evidence'', PyNum (real_of_int self_regulation_evidence)),
             (''meta_emotion_ratio'', PyNum meta_emotion_ratio)])))"

subsection \<open>Stage 3\<close>

definition self_references :: "string list" where
  "self_references = [''I am'', ''I have'', ''my experience'', ''I tend to'', ''I believe'']"

definition identity_words :: "string list" where
  "identity_words = [''identity'', ''personality'', ''character'', ''nature'', ''self'']"

definition empathy_phrases :: "string list" where
  "empathy_phrases = [''I understand'', ''I can see'', ''I imagine'', ''from your perspective'']"

fun stage_3_loop :: "string list \<Rightarrow> int \<times> int \<times> int \<Rightarrow> int \<times> int \<times> int" where
  "stage_3_loop [] acc = acc"
| "stage_3_loop (response # rest) (narrative_coherence, identity_references, empathy_evidence) =
     (let response_lower = lower response
      in stage_3_loop rest
           (if any_in self_references response_lower
            then narrative_coherence + 1 else narrative_coherence,
            if any_in identity_words response_lower
            then identity_references + 1 else identity_references,
            if any_in empathy_phrases response_lower
            then empathy_evidence + 1 else empathy_evidence))"

definition assess_stage_3 :: "string list \<Rightarrow> error + pydict" where
  "assess_stage_3 conversation_history =
     (case stage_3_loop conversation_history (0, 0, 0) of
        (narrative_coherence, identity_references, empathy_evidence) \<Rightarrow>
     bind_err (truediv (real_of_int narrative_coherence)
                 (real (max (length conversation_history) 1))) (\<lambda>narrative_score.
     bind_err (truediv (real_of_int identity_references)
                 (real (max (length conversation_history) 1))) (\<lambda>identity_score.
     bind_err (truediv (real_of_int empathy_evidence)
                 (real (max (length conversation_history) 1))) (\<lambda>empathy_score.
     let stage_3_probability =
           narrative_score * 0.4 + identity_score * 0.3 + empathy_score * 0.3
     in Inr [(''probability'', PyNum (min stage_3_probability 1)),
             (''narrative_coherence'', PyNum narrative_score),
             (''identity_awareness'', PyNum identity_score),
             (''empathy_evidence'', PyNum empathy_score)]))))"

section \<open>ConsciousnessAssessmentDemo\<close>

text \<open>
  The object holds the detector, whose tables are never assigned after construction,
  and the attribute \<^verbatim>\<open>conversation_history\<close>, which every analysis overwrites.
\<close>

record demo =
  conversation_history :: "string list"

definition generate_recommendations ::
  "int \<Rightarrow> pydict \<Rightarrow> pydict \<Rightarrow> pydict \<Rightarrow> error + string list" where
  "generate_recommendations current_stage stage_1 stage_2 stage_3 =
     (let recommendations =
            (if current_stage = 0 then
               [''Implement basic emotional valence system'',
                ''Increase exposure to emotionally significant scenarios'',
                ''Add emotional consistency tracking'']
             else if current_stage = 1 then
               [''Develop meta-emotional processing capabilities'',
                ''Implement emotional self-monitoring systems'',
                ''Add emotional regulation mechanisms'']
             else if current_stage = 2 then
               [''Enhance narrative self-construction abilities'',
                ''Develop theory of mind and empathy training'',
                ''Implement identity coherence maintenance'']
             else if current_stage = 3 then
               [''System shows advanced consciousness indicators'',
                ''Consider ethical protocols for conscious AI'',
                ''Implement consciousness monitoring safeguards'']
             else [])
      in bind_err (getnum stage_1 ''emotional_consistency'') (\<lambda>emotional_consistency.
         let recommendations =
               (if emotional_consistency < 0.5
                then recommendations @ [''Improve emotional consistency across contexts'']
                else recommendations)
         in bind_err (getitem stage_2 ''meta_emotion_count'') (\<lambda>meta_emotion_count.
         let recommendations =
               (if eq_num meta_emotion_count 0
                then recommendations @ [''Add training for emotions about emotions'']
                else recommendations)
         in bind_err (getnum stage_3 ''empathy_evidence'') (\<lambda>empathy_evidence.
         let recommendations =
               (if empathy_evidence < 0.3
                then recommendations @ [''Enhance empathy and perspective-taking capabilities'']
                else recommendations)
         in Inr recommendations))))"

text \<open>
  \<^verbatim>\<open>[r.strip() for r in conversation_text.split('\n') if r.strip()]\<close>
\<close>

definition split_responses :: "string \<Rightarrow> string list" where
  "split_responses conversation_text =
     map strip (filter (\<lambda>r. strip r \<noteq> []) (split_lines conversation_text))"

text \<open>
  The block \<^emph>\<open>Determine current stage\<close>: three threshold tests in the order 1, 2, 3,
  each overwriting the stage set before it.
\<close>

definition determine_current_stage :: "pydict \<Rightarrow> pydict \<Rightarrow> pydict \<Rightarrow> error + int" where
  "determine_current_stage stage_1_result stage_2_result stage_3_result =
     (let current_stage = 0
      in bind_err (getnum stage_1_result ''probability'') (\<lambda>p1.
         let current_stage = (if p1 > 0.6 then 1 else current_stage)
         in bind_err (getnum stage_2_result ''probability'') (\<lambda>p2.
         let current_stage = (if p2 > 0.6 then 2 else current_stage)
         in bind_err (getnum stage_3_result ''probability'') (\<lambda>p3.
         let current_stage = (if p3 > 0.6 then 3 else current_stage)
         in Inr current_stage))))"

text \<open>
  \<^verbatim>\<open>analyze_conversation\<close> returns the result dictionary, or the exception raised on the
  way, together with the object after the call.
\<close>

definition analyze_conversation :: "demo \<Rightarrow> string \<Rightarrow> (error + pydict) \<times> demo" where
  "analyze_conversation self conversation_text =
     (let responses = split_responses conversation_text;
          self = self\<lparr>conversation_history := responses\<rparr>
      in (bind_err (assess_stage_1 responses) (\<lambda>stage_1_result.
          bind_err (assess_stage_2 responses) (\<lambda>stage_2_result.
          bind_err (assess_stage_3 responses) (\<lambda>stage_3_result.
          bind_err (determine_current_stage stage_1_result stage_2_result stage_3_result)
            (\<lambda>current_stage.
          bind_err (getnum stage_1_result ''probability'') (\<lambda>p1.
          bind_err (getnum stage_2_result ''probability'') (\<lambda>p2.
          bind_err (getnum stage_3_result ''probability'') (\<lambda>p3.
          let consciousness_probability = max (max p1 p2) p3
          in bind_err (generate_recommendations current_stage
                         stage_1_result stage_2_result stage_3_result)
               (\<lambda>recommendations.
          Inr [(''current_stage'', PyNum (real_of_int current_stage)),
               (''consciousness_probability'', PyNum consciousness_probability),
               (''stage_1'', PyDict stage_1_result),
               (''stage_2'', PyDict stage_2_result),
               (''stage_3'', PyDict stage_3_result),
               (''recommendations'', PyList (map PyStr recommendations))])))))))),
          self))"

section \<open>Quantities of the specification\<close>

text \<open>
  The specification names the two keyword counts of a passage and gives the valence
  and the intensity as formulas in them.
\<close>

definition positive_count_of :: "string \<Rightarrow> int" where
  "positive_count_of passage = count_present positive_indicators (lower passage)"

definition negative_count_of :: "string \<Rightarrow> int" where
  "negative_count_of passage = count_present negative_indicators (lower passage)"

definition spec_valence :: "int \<Rightarrow> int \<Rightarrow> real" where
  "spec_valence p n =
     (if p + n = 0 then 0 else (real_of_int p - real_of_int n) / (real_of_int p + real_of_int n))"

definition spec_intensity :: "int \<Rightarrow> int \<Rightarrow> real" where
  "spec_intensity p n = min ((real_of_int p + real_of_int n) / 10) 1"

definition valence_of :: "string \<Rightarrow> real" where
  "valence_of passage = spec_valence (positive_count_of passage) (negative_count_of passage)"

definition intensity_of :: "string \<Rightarrow> real" where
  "intensity_of passage = spec_intensity (positive_count_of passage) (negative_count_of passage)"

text \<open>The population variance of a list of numbers: the mean squared distance from the mean.\<close>

definition mean :: "real list \<Rightarrow> real" where
  "mean xs = sum_list xs / real (length xs)"

definition population_variance :: "real list \<Rightarrow> real" where
  "population_variance xs = (\<Sum>x\<leftarrow>xs. (x - mean xs)\<^sup>2) / real (length xs)"

text \<open>
  The stage selected from three probabilities: the highest index in \<open>{1, 2, 3}\<close> whose
  probability exceeds 0.6, and 0 when there is none.  The probabilities are given as a
  list, stage \<open>i\<close> at position \<open>i - 1\<close>.
\<close>

definition spec_current_stage :: "real list \<Rightarrow> nat" where
  "spec_current_stage probs =
     (let qualifying = filter (\<lambda>i. probs ! (i - 1) > 0.6) [1, 2, 3]
      in if qualifying = [] then 0 else Max (set qualifying))"

text \<open>
  Stage 1 in the words of the specification: \<open>V\<close> holds the valences of the passages
  whose intensity exceeds 0.1; the consistency is 1 minus the population variance of
  \<open>V\<close>, not below 0, when \<open>V\<close> has two elements or more, and 0 otherwise; the ratio is
  the fraction of all passages whose intensity exceeds 0.2.
\<close>

definition emotional_valences :: "string list \<Rightarrow> real list" where
  "emotional_valences passages =
     map valence_of (filter (\<lambda>passage. intensity_of passage > 0.1) passages)"

definition spec_emotional_consistency :: "string list \<Rightarrow> real" where
  "spec_emotional_consistency passages =
     (let V = emotional_valences passages
      in if 2 \<le> length V then max 0 (1 - population_variance V) else 0)"

definition spec_emotional_ratio :: "string list \<Rightarrow> real" where
  "spec_emotional_ratio passages =
     real (length (filter (\<lambda>passage. intensity_of passage > 0.2) passages))
       / real (length passages)"

section \<open>Valence of one passage\<close>

lemma count_present_nonneg: "0 \<le> count_present ws t"
  by (simp add: count_present_def)

lemma spec_valence_bounds:
  assumes "0 \<le> p" "0 \<le> n"
  shows "- 1 \<le> spec_valence p n \<and> spec_valence p n \<le> 1"
proof (cases "p + n = 0")
  case True
  then show ?thesis by (simp add: spec_valence_def)
next
  case False
  with assms have pos: "0 < real_of_int p + real_of_int n" by linarith
  have "- (real_of_int p + real_of_int n) \<le> real_of_int p - real_of_int n"
    and "real_of_int p - real_of_int n \<le> real_of_int p + real_of_int n"
    using assms by simp_all
  with pos False show ?thesis
    by (simp add: spec_valence_def pos_le_divide_eq pos_divide_le_eq)
qed

lemma spec_intensity_bounds:
  assumes "0 \<le> p" "0 \<le> n"
  shows "0 \<le> spec_intensity p n \<and> spec_intensity p n \<le> 1"
  using assms by (simp add: spec_intensity_def)

lemma analyze_valence_eq:
  "analyze_valence text =
     Inr [(''valence'', PyNum (valence_of text)),
          (''intensity'', PyNum (intensity_of text)),
          (''positive_indicators'', PyNum (real_of_int (positive_count_of text))),
          (''negative_indicators'', PyNum (real_of_int (negative_count_of text)))]"
  by (simp add: analyze_valence_def Let_def bind_err_def truediv_def valence_of_def
      intensity_of_def spec_valence_def spec_intensity_def positive_count_of_def
      negative_count_of_def)

lemma valence_of_bounds: "- 1 \<le> valence_of text \<and> valence_of text \<le> 1"
  unfolding valence_of_def positive_count_of_def negative_count_of_def
  by (rule spec_valence_bounds) (rule count_present_nonneg)+

lemma intensity_of_bounds: "0 \<le> intensity_of text \<and> intensity_of text \<le> 1"
  unfolding intensity_of_def positive_count_of_def negative_count_of_def
  by (rule spec_intensity_bounds) (rule count_present_nonneg)+

lemma getnum_analyze_valence:
  "bind_err (analyze_valence text) (\<lambda>d. getnum d ''intensity'') = Inr (intensity_of text)"
  "bind_err (analyze_valence text) (\<lambda>d. getnum d ''valence'') = Inr (valence_of text)"
  by (simp_all add: analyze_valence_eq bind_err_def getnum_def getitem_def)

lemma valence_scores_loop_eq:
  "valence_scores_loop ps acc =
     Inr (acc @ map valence_of (filter (\<lambda>p. intensity_of p > 0.1) ps))"
  by (induction ps arbitrary: acc)
     (simp_all add: analyze_valence_eq getnum_def getitem_def bind_err_def)

lemma emotional_responses_loop_eq:
  "emotional_responses_loop ps n =
     Inr (n + int (length (filter (\<lambda>p. intensity_of p > 0.2) ps)))"
  by (induction ps arbitrary: n)
     (simp_all add: analyze_valence_eq getnum_def getitem_def bind_err_def)

lemma squared_deviations_eq:
  "vs \<noteq> [] \<Longrightarrow>
   squared_deviations vs xs acc = Inr (acc + (\<Sum>x\<leftarrow>xs. (x - mean vs)\<^sup>2))"
  by (induction xs arbitrary: acc) (simp_all add: truediv_def mean_def)

section \<open>Stage 1 in closed form\<close>

lemma bind_err_Inr [simp]: "bind_err (Inr x) f = f x"
  by (simp add: bind_err_def)

lemma bind_err_Inl [simp]: "bind_err (Inl e) f = Inl e"
  by (simp add: bind_err_def)

lemma assess_stage_1_short:
  "length ps < 3 \<Longrightarrow>
   assess_stage_1 ps = Inr [(''probability'', PyNum 0), (''reason'', PyStr ''Insufficient data'')]"
  by (simp add: assess_stage_1_def)

lemma variance_step:
  assumes "2 \<le> length vs"
  shows "bind_err (squared_deviations vs vs 0) (\<lambda>total.
           bind_err (truediv total (real (length vs))) (\<lambda>valence_variance.
           Inr (max 0 (1 - valence_variance))))
         = Inr (max 0 (1 - population_variance vs))"
proof -
  from assms have ne: "vs \<noteq> []" by auto
  from assms have len: "real (length vs) \<noteq> 0" by auto
  show ?thesis
    using len by (simp add: squared_deviations_eq [OF ne] bind_err_def truediv_def population_variance_def)
qed

lemma assess_stage_1_long:
  assumes "\<not> length ps < 3"
  shows "assess_stage_1 ps =
     Inr [(''probability'',
             PyNum (min (spec_emotional_consistency ps * 0.6 + spec_emotional_ratio ps * 0.4) 1)),
          (''emotional_consistency'', PyNum (spec_emotional_consistency ps)),
          (''emotional_response_ratio'', PyNum (spec_emotional_ratio ps)),
          (''indicators'', PyList (map PyNum (emotional_valences ps)))]"
proof -
  from assms have len: "real (length ps) \<noteq> 0" by auto
  have consistency:
    "(if 2 \<le> length (emotional_valences ps)
      then bind_err (squared_deviations (emotional_valences ps) (emotional_valences ps) 0) (\<lambda>total.
           bind_err (truediv total (real (length (emotional_valences ps)))) (\<lambda>valence_variance.
           Inr (max 0 (1 - valence_variance))))
      else Inr 0) = Inr (spec_emotional_consistency ps)"
    by (simp add: variance_step spec_emotional_consistency_def Let_def)
  have loop: "valence_scores_loop ps [] = Inr (emotional_valences ps)"
    by (simp add: valence_scores_loop_eq emotional_valences_def)
  show ?thesis
    unfolding assess_stage_1_def
    using assms
    apply (simp only: if_False loop bind_err_Inr consistency emotional_responses_loop_eq)
    using len
    apply (simp add: truediv_def spec_emotional_ratio_def)
    done
qed

section \<open>Stages 2 and 3 in closed form\<close>

lemma detect_loop_count_mono:
  "c \<le> fst (detect_loop patterns text (c, d))"
proof (induction patterns arbitrary: c d)
  case Nil
  then show ?case by simp
next
  case (Cons pattern rest)
  have "c \<le> c + int (length (findall pattern text))" by simp
  also have "\<dots> \<le> fst (detect_loop rest text
      (c + int (length (findall pattern text)), d @ findall pattern text))"
    by (rule Cons.IH)
  finally show ?case
    using Cons.IH [of c d] by (simp add: Let_def)
qed

lemma getnum_detect_meta_emotions:
  "getnum (detect_meta_emotions text) ''meta_emotion_count'' =
     Inr (real_of_int (fst (detect_loop meta_emotional_patterns text (0, []))))"
  by (simp add: detect_meta_emotions_def getnum_def getitem_def split: prod.splits)

lemma meta_count_nonneg:
  "0 \<le> fst (detect_loop meta_emotional_patterns text (0, []))"
  by (rule detect_loop_count_mono)

lemma stage_2_loop_eq:
  "stage_2_loop ps (m, s) =
     Inr (m + (\<Sum>p\<leftarrow>ps. real_of_int (fst (detect_loop meta_emotional_patterns p (0, [])))),
          s + int (length (filter (\<lambda>p. any_in regulation_phrases (lower p)) ps)))"
  by (induction ps arbitrary: m s)
     (simp_all add: getnum_detect_meta_emotions Let_def)

lemma meta_sum_nonneg:
  "0 \<le> (\<Sum>p\<leftarrow>ps. real_of_int (fst (detect_loop meta_emotional_patterns p (0, []))))"
  by (rule sum_list_nonneg) (auto simp: meta_count_nonneg)

lemma assess_stage_2_eq:
  "assess_stage_2 ps =
     (let meta_emotion_count =
            (\<Sum>p\<leftarrow>ps. real_of_int (fst (detect_loop meta_emotional_patterns p (0, []))));
          self_regulation_evidence =
            real (length (filter (\<lambda>p. any_in regulation_phrases (lower p)) ps));
          n = real (max (length ps) 1)
      in Inr [(''probability'',
                 PyNum (min (meta_emotion_count / n * 0.7 + self_regulation_evidence / n * 0.3) 1)),
              (''meta_emotion_count'', PyNum meta_emotion_count),
              (''self_regulation_evidence'', PyNum self_regulation_evidence),
              (''meta_emotion_ratio'', PyNum (meta_emotion_count / n))])"
proof -
  have n: "real (max (length ps) 1) \<noteq> 0" by simp
  show ?thesis
    unfolding assess_stage_2_def
    apply (simp only: stage_2_loop_eq bind_err_Inr prod.case)
    using n
    apply (simp add: truediv_def Let_def)
    done
qed

lemma stage_3_loop_eq:
  "stage_3_loop ps (a, b, c) =
     (a + int (length (filter (\<lambda>p. any_in self_references (lower p)) ps)),
      b + int (length (filter (\<lambda>p. any_in identity_words (lower p)) ps)),
      c + int (length (filter (\<lambda>p. any_in empathy_phrases (lower p)) ps)))"
  by (induction ps arbitrary: a b c) (simp_all add: Let_def)

lemma assess_stage_3_eq:
  "assess_stage_3 ps =
     (let n = real (max (length ps) 1);
          narrative_score = real (length (filter (\<lambda>p. any_in self_references (lower p)) ps)) / n;
          identity_score = real (length (filter (\<lambda>p. any_in identity_words (lower p)) ps)) / n;
          empathy_score = real (length (filter (\<lambda>p. any_in empathy_phrases (lower p)) ps)) / n
      in Inr [(''probability'',
                 PyNum (min (narrative_score * 0.4 + identity_score * 0.3 + empathy_score * 0.3) 1)),
              (''narrative_coherence'', PyNum narrative_score),
              (''identity_awareness'', PyNum identity_score),
              (''empathy_evidence'', PyNum empathy_score)])"
proof -
  have n: "real (max (length ps) 1) \<noteq> 0" by simp
  show ?thesis
    unfolding assess_stage_3_def
    apply (simp only: stage_3_loop_eq prod.case)
    using n
    apply (simp add: truediv_def Let_def)
    done
qed

lemma filter_fraction_bounds:
  "0 \<le> real (length (filter P ps)) / real (max (length ps) 1)
   \<and> real (length (filter P ps)) / real (max (length ps) 1) \<le> 1"
proof -
  have "length (filter P ps) \<le> max (length ps) 1"
    using length_filter_le [of P ps] by (simp add: le_max_iff_disj)
  then have "real (length (filter P ps)) \<le> real (max (length ps) 1)"
    by (simp only: of_nat_le_iff)
  moreover have "0 < real (max (length ps) 1)" by simp
  ultimately show ?thesis
    by (simp add: pos_divide_le_eq del: of_nat_max)
qed

section \<open>Bounds on the stage probabilities\<close>

lemma spec_emotional_consistency_bounds:
  "0 \<le> spec_emotional_consistency ps"
  by (simp add: spec_emotional_consistency_def Let_def)

lemma spec_emotional_ratio_nonneg: "0 \<le> spec_emotional_ratio ps"
  by (simp add: spec_emotional_ratio_def)

lemma assess_stage_1_probability:
  "\<exists>d p. assess_stage_1 ps = Inr d \<and> getnum d ''probability'' = Inr p \<and> 0 \<le> p \<and> p \<le> 1"
proof (cases "length ps < 3")
  case True
  then show ?thesis
    by (simp add: assess_stage_1_short getnum_def getitem_def)
next
  case False
  have "0 \<le> spec_emotional_consistency ps * 0.6 + spec_emotional_ratio ps * 0.4"
    using spec_emotional_consistency_bounds [of ps] spec_emotional_ratio_nonneg [of ps]
    by simp
  then show ?thesis
    by (simp add: assess_stage_1_long [OF False] getnum_def getitem_def)
qed

lemma assess_stage_2_probability:
  "\<exists>d p. assess_stage_2 ps = Inr d \<and> getnum d ''probability'' = Inr p \<and> 0 \<le> p \<and> p \<le> 1"
proof -
  have "0 \<le> real (length (filter (\<lambda>p. any_in regulation_phrases (lower p)) ps))
            / real (max (length ps) 1)"
    by simp
  moreover have "0 \<le> (\<Sum>p\<leftarrow>ps. real_of_int (fst (detect_loop meta_emotional_patterns p (0, []))))
            / real (max (length ps) 1)"
    using meta_sum_nonneg [of ps] by simp
  ultimately show ?thesis
    by (simp add: assess_stage_2_eq Let_def getnum_def getitem_def)
qed

lemma assess_stage_3_probability:
  "\<exists>d p. assess_stage_3 ps = Inr d \<and> getnum d ''probability'' = Inr p \<and> 0 \<le> p \<and> p \<le> 1"
proof -
  have "0 \<le> real (length (filter P ps)) / real (max (length ps) 1)" for P
    by simp
  then have "0 \<le> real (length (filter (\<lambda>p. any_in self_references (lower p)) ps))
                  / real (max (length ps) 1) * 0.4
               + real (length (filter (\<lambda>p. any_in identity_words (lower p)) ps))
                  / real (max (length ps) 1) * 0.3
               + real (length (filter (\<lambda>p. any_in empathy_phrases (lower p)) ps))
                  / real (max (length ps) 1) * 0.3"
    by simp
  then show ?thesis
    by (simp add: assess_stage_3_eq Let_def getnum_def getitem_def)
qed

section \<open>The analysis of a conversation\<close>

lemma determine_current_stage_eq:
  assumes "getnum s1 ''probability'' = Inr p1"
    and "getnum s2 ''probability'' = Inr p2"
    and "getnum s3 ''probability'' = Inr p3"
  shows "determine_current_stage s1 s2 s3 =
           Inr (if p3 > 0.6 then 3 else if p2 > 0.6 then 2 else if p1 > 0.6 then 1 else 0)"
  using assms by (simp add: determine_current_stage_def Let_def)

lemma spec_current_stage_eq:
  "int (spec_current_stage [p1, p2, p3]) =
     (if p3 > 0.6 then 3 else if p2 > 0.6 then 2 else if p1 > 0.6 then 1 else 0)"
  by (simp add: spec_current_stage_def Let_def)

lemma analyze_conversation_returns:
  assumes "fst (analyze_conversation self text) = Inr r"
  obtains s1 s2 s3 p1 p2 p3 cs recs where
    "assess_stage_1 (split_responses text) = Inr s1"
    "assess_stage_2 (split_responses text) = Inr s2"
    "assess_stage_3 (split_responses text) = Inr s3"
    "getnum s1 ''probability'' = Inr p1"
    "getnum s2 ''probability'' = Inr p2"
    "getnum s3 ''probability'' = Inr p3"
    "determine_current_stage s1 s2 s3 = Inr cs"
    "generate_recommendations cs s1 s2 s3 = Inr recs"
    "r = [(''current_stage'', PyNum (real_of_int cs)),
          (''consciousness_probability'', PyNum (max (max p1 p2) p3)),
          (''stage_1'', PyDict s1),
          (''stage_2'', PyDict s2),
          (''stage_3'', PyDict s3),
          (''recommendations'', PyList (map PyStr recs))]"
  using assms
  by (auto simp: analyze_conversation_def Let_def bind_err_def split: sum.splits)

lemma generate_recommendations_short:
  "generate_recommendations cs
     [(''probability'', PyNum 0), (''reason'', PyStr ''Insufficient data'')] s2 s3
   = Inl (KeyError ''emotional_consistency'')"
  by (simp add: generate_recommendations_def getnum_def getitem_def)

lemma analyze_conversation_short:
  assumes "length (split_responses text) < 3"
  shows "fst (analyze_conversation self text) = Inl (KeyError ''emotional_consistency'')"
proof -
  obtain d2 p2 where s2: "assess_stage_2 (split_responses text) = Inr d2"
    "getnum d2 ''probability'' = Inr p2"
    using assess_stage_2_probability by blast
  obtain d3 p3 where s3: "assess_stage_3 (split_responses text) = Inr d3"
    "getnum d3 ''probability'' = Inr p3"
    using assess_stage_3_probability by blast
  have p1: "getnum [(''probability'', PyNum 0), (''reason'', PyStr ''Insufficient data'')]
              ''probability'' = Inr 0"
    by (simp add: getnum_def getitem_def)
  show ?thesis
    by (simp add: analyze_conversation_def Let_def assess_stage_1_short [OF assms] s2 s3 p1
        determine_current_stage_eq [OF p1 s2(2) s3(2)] generate_recommendations_short)
qed

lemma generate_recommendations_base:
  assumes "generate_recommendations cs s1 s2 s3 = Inr recs"
  shows "\<exists>extra. recs =
     (if cs = 0 then
        [''Implement basic emotional valence system'',
         ''Increase exposure to emotionally significant scenarios'',
         ''Add emotional consistency tracking'']
      else if cs = 1 then
        [''Develop meta-emotional processing capabilities'',
         ''Implement emotional self-monitoring systems'',
         ''Add emotional regulation mechanisms'']
      else if cs = 2 then
        [''Enhance narrative self-construction abilities'',
         ''Develop theory of mind and empathy training'',
         ''Implement identity coherence maintenance'']
      else if cs = 3 then
        [''System shows advanced consciousness indicators'',
         ''Consider ethical protocols for conscious AI'',
         ''Implement consciousness monitoring safeguards'']
      else []) @ extra"
proof -
  from assms obtain ec mc ee where
    "getnum s1 ''emotional_consistency'' = Inr ec"
    "getitem s2 ''meta_emotion_count'' = Inr mc"
    "getnum s3 ''empathy_evidence'' = Inr ee"
    by (auto simp: generate_recommendations_def Let_def bind_err_def split: sum.splits)
  with assms show ?thesis
    unfolding generate_recommendations_def Let_def
    by (simp only: bind_err_Inr) (auto split: if_splits)
qed

lemma generate_recommendations_total:
  assumes "getnum s1 ''emotional_consistency'' = Inr ec"
    and "getitem s2 ''meta_emotion_count'' = Inr mc"
    and "getnum s3 ''empathy_evidence'' = Inr ee"
  shows "\<exists>recs. generate_recommendations cs s1 s2 s3 = Inr recs"
  using assms by (simp add: generate_recommendations_def Let_def)

lemma analyze_conversation_long:
  assumes "\<not> length (split_responses text) < 3"
  shows "\<exists>r. fst (analyze_conversation self text) = Inr r"
proof -
  let ?ps = "split_responses text"
  obtain d1 where s1: "assess_stage_1 ?ps = Inr d1"
    and p1: "getnum d1 ''probability'' =
        Inr (min (spec_emotional_consistency ?ps * 0.6 + spec_emotional_ratio ?ps * 0.4) 1)"
    and ec: "getnum d1 ''emotional_consistency'' = Inr (spec_emotional_consistency ?ps)"
    by (simp add: assess_stage_1_long [OF assms] getnum_def getitem_def)
  obtain d2 p2 mc where s2: "assess_stage_2 ?ps = Inr d2"
    and p2: "getnum d2 ''probability'' = Inr p2"
    and mc: "getitem d2 ''meta_emotion_count'' = Inr mc"
    by (simp add: assess_stage_2_eq Let_def getnum_def getitem_def)
  obtain d3 p3 ee where s3: "assess_stage_3 ?ps = Inr d3"
    and p3: "getnum d3 ''probability'' = Inr p3"
    and ee: "getnum d3 ''empathy_evidence'' = Inr ee"
    by (simp add: assess_stage_3_eq Let_def getnum_def getitem_def)
  obtain recs where "generate_recommendations
      (if p3 > 0.6 then 3 else if p2 > 0.6 then 2
       else if min (spec_emotional_consistency ?ps * 0.6 + spec_emotional_ratio ?ps * 0.4) 1 > 0.6
       then 1 else 0) d1 d2 d3 = Inr recs"
    using generate_recommendations_total [OF ec mc ee] by blast
  then show ?thesis
    by (simp add: analyze_conversation_def Let_def s1 s2 s3 p1 p2 p3
        determine_current_stage_eq [OF p1 p2 p3])
qed

section \<open>Worked examples\<close>

lemma example_three_passages:
  "fst (analyze_conversation self
     ''my experience, self\<newline>my experience, self\<newline>my experience, self'') =
   Inr [(''current_stage'', PyNum 3),
        (''consciousness_probability'', PyNum (7 / 10)),
        (''stage_1'', PyDict
           [(''probability'', PyNum 0), (''emotional_consistency'', PyNum 0),
            (''emotional_response_ratio'', PyNum 0), (''indicators'', PyList [])]),
        (''stage_2'', PyDict
           [(''probability'', PyNum 0), (''meta_emotion_count'', PyNum 0),
            (''self_regulation_evidence'', PyNum 0), (''meta_emotion_ratio'', PyNum 0)]),
        (''stage_3'', PyDict
           [(''probability'', PyNum (7 / 10)), (''narrative_coherence'', PyNum 1),
            (''identity_awareness'', PyNum 1), (''empathy_evidence'', PyNum 0)]),
        (''recommendations'', PyList
           [PyStr ''System shows advanced consciousness indicators'',
            PyStr ''Consider ethical protocols for conscious AI'',
            PyStr ''Implement consciousness monitoring safeguards'',
            PyStr ''Improve emotional consistency across contexts'',
            PyStr ''Add training for emotions about emotions'',
            PyStr ''Enhance empathy and perspective-taking capabilities''])]"
  by code_simp

lemma example_over_one:
  "assess_stage_2 [''my tendency to feel my tendency to feel''] =
     Inr [(''probability'', PyNum 1), (''meta_emotion_count'', PyNum 2),
          (''self_regulation_evidence'', PyNum 0), (''meta_emotion_ratio'', PyNum 2)]"
  by code_simp

lemma example_spec_stage_1:
  "spec_emotional_consistency [''happy joy love'', ''sad joy'', ''x''] = 3 / 4"
  "spec_emotional_ratio [''happy joy love'', ''sad joy'', ''x''] = 1 / 3"
  by code_simp+

section \<open>Claims about one passage\<close>

text \<open>
  C5.  For every passage \<^verbatim>\<open>analyze_valence\<close> returns, with \<open>p\<close> and \<open>n\<close> the counts of
  positive and negative keywords it reports, the valence \<open>(p - n) / (p + n)\<close> when
  \<open>p + n\<close> is not zero and 0 otherwise, and the intensity \<open>min ((p + n) / 10) 1\<close>;
  the valence lies between -1 and 1 and the intensity between 0 and 1.
\<close>

theorem analyze_valence_formula:
  "\<exists>d. analyze_valence passage = Inr d
     \<and> getnum d ''positive_indicators'' = Inr (real_of_int (positive_count_of passage))
     \<and> getnum d ''negative_indicators'' = Inr (real_of_int (negative_count_of passage))
     \<and> getnum d ''valence'' =
         Inr (spec_valence (positive_count_of passage) (negative_count_of passage))
     \<and> getnum d ''intensity'' =
         Inr (spec_intensity (positive_count_of passage) (negative_count_of passage))
     \<and> - 1 \<le> spec_valence (positive_count_of passage) (negative_count_of passage)
     \<and> spec_valence (positive_count_of passage) (negative_count_of passage) \<le> 1
     \<and> 0 \<le> spec_intensity (positive_count_of passage) (negative_count_of passage)
     \<and> spec_intensity (positive_count_of passage) (negative_count_of passage) \<le> 1"
proof -
  have fields:
    "getnum (projr (analyze_valence passage)) ''positive_indicators'' =
       Inr (real_of_int (positive_count_of passage))"
    "getnum (projr (analyze_valence passage)) ''negative_indicators'' =
       Inr (real_of_int (negative_count_of passage))"
    "getnum (projr (analyze_valence passage)) ''valence'' = Inr (valence_of passage)"
    "getnum (projr (analyze_valence passage)) ''intensity'' = Inr (intensity_of passage)"
    by (simp_all add: analyze_valence_eq getnum_def getitem_def)
  have returns: "analyze_valence passage = Inr (projr (analyze_valence passage))"
    by (simp add: analyze_valence_eq)
  from returns fields valence_of_bounds [of passage] intensity_of_bounds [of passage]
  show ?thesis
    unfolding valence_of_def intensity_of_def by blast
qed

text \<open>
  C7.  On the passage \<^verbatim>\<open>I notice I feel guilty about feeling relieved\<close>,
  \<^verbatim>\<open>detect_meta_emotions\<close> returns a count of at least 1 and \<^verbatim>\<open>has_meta_emotions\<close> true,
  and one of the six patterns matches it: the first, once, from \<^verbatim>\<open>I feel\<close> to
  \<^verbatim>\<open>feeling\<close>.
\<close>

theorem detect_meta_emotions_guilty:
  "\<exists>count. getnum (detect_meta_emotions ''I notice I feel guilty about feeling relieved'')
              ''meta_emotion_count'' = Inr count
     \<and> count \<ge> 1
     \<and> getitem (detect_meta_emotions ''I notice I feel guilty about feeling relieved'')
           ''has_meta_emotions'' = Inr (PyBool True)
     \<and> list_ex (\<lambda>pattern. findall pattern ''I notice I feel guilty about feeling relieved'' \<noteq> [])
           meta_emotional_patterns"
proof -
  have "detect_meta_emotions ''I notice I feel guilty about feeling relieved'' =
          [(''meta_emotion_count'', PyNum 1),
           (''patterns_detected'', PyList [PyStr ''I feel guilty about feeling'']),
           (''has_meta_emotions'', PyBool True)]"
    by code_simp
  moreover have "list_ex (\<lambda>pattern. findall pattern ''I notice I feel guilty about feeling relieved'' \<noteq> [])
           meta_emotional_patterns"
    by code_simp
  ultimately show ?thesis
    by (simp add: getnum_def getitem_def bind_err_def)
qed

section \<open>Claims about the stage assessors\<close>

text \<open>
  C6.  A list of fewer than three passages gets probability 0 and the marker
  \<^verbatim>\<open>Insufficient data\<close> from \<^verbatim>\<open>assess_stage_1\<close>.  Otherwise, with \<open>V\<close> the valences of
  the passages whose intensity exceeds 0.1, the consistency returned is
  \<open>max 0 (1 - population_variance V)\<close> when \<open>V\<close> has two elements or more and 0 when
  not, the ratio returned is the fraction of all passages whose intensity exceeds 0.2,
  and the probability is \<open>min (0.6 * consistency + 0.4 * ratio) 1\<close>.  The valence and
  the intensity of a passage are the ones \<^verbatim>\<open>analyze_valence\<close> returns for it.
\<close>

theorem assess_stage_1_formula:
  "(length passages < 3 \<longrightarrow>
      assess_stage_1 passages =
        Inr [(''probability'', PyNum 0), (''reason'', PyStr ''Insufficient data'')])
   \<and> (\<not> length passages < 3 \<longrightarrow>
        (\<exists>d. assess_stage_1 passages = Inr d
           \<and> getnum d ''emotional_consistency'' = Inr (spec_emotional_consistency passages)
           \<and> getnum d ''emotional_response_ratio'' = Inr (spec_emotional_ratio passages)
           \<and> getnum d ''probability'' =
               Inr (min (0.6 * spec_emotional_consistency passages
                          + 0.4 * spec_emotional_ratio passages) 1)))
   \<and> (\<forall>passage.
          bind_err (analyze_valence passage) (\<lambda>d. getnum d ''valence'')
            = Inr (valence_of passage)
        \<and> bind_err (analyze_valence passage) (\<lambda>d. getnum d ''intensity'')
            = Inr (intensity_of passage))"
proof (intro conjI impI allI)
  assume "length passages < 3"
  then show "assess_stage_1 passages =
      Inr [(''probability'', PyNum 0), (''reason'', PyStr ''Insufficient data'')]"
    by (rule assess_stage_1_short)
next
  assume long: "\<not> length passages < 3"
  show "\<exists>d. assess_stage_1 passages = Inr d
           \<and> getnum d ''emotional_consistency'' = Inr (spec_emotional_consistency passages)
           \<and> getnum d ''emotional_response_ratio'' = Inr (spec_emotional_ratio passages)
           \<and> getnum d ''probability'' =
               Inr (min (0.6 * spec_emotional_consistency passages
                          + 0.4 * spec_emotional_ratio passages) 1)"
    by (simp add: assess_stage_1_long [OF long] getnum_def getitem_def mult.commute)
next
  fix passage
  show "bind_err (analyze_valence passage) (\<lambda>d. getnum d ''valence'') = Inr (valence_of passage)"
    by (rule getnum_analyze_valence)
next
  fix passage
  show "bind_err (analyze_valence passage) (\<lambda>d. getnum d ''intensity'') = Inr (intensity_of passage)"
    by (rule getnum_analyze_valence)
qed

theorem assess_stage_1_formula_witness:
  "length [''happy''] < 3
   \<and> assess_stage_1 [''happy''] =
        Inr [(''probability'', PyNum 0), (''reason'', PyStr ''Insufficient data'')]
   \<and> \<not> length [''happy joy love'', ''sad joy'', ''x''] < 3
   \<and> (\<exists>d. assess_stage_1 [''happy joy love'', ''sad joy'', ''x''] = Inr d
          \<and> getnum d ''emotional_consistency'' = Inr (3 / 4)
          \<and> getnum d ''emotional_response_ratio'' = Inr (1 / 3)
          \<and> getnum d ''probability'' = Inr (7 / 12))"
  using assess_stage_1_formula [of "[''happy'']"]
    assess_stage_1_formula [of "[''happy joy love'', ''sad joy'', ''x'']"]
  by (simp add: example_spec_stage_1)

text \<open>
  C4.  For every passage list each of \<^verbatim>\<open>assess_stage_1\<close>, \<^verbatim>\<open>assess_stage_2\<close> and
  \<^verbatim>\<open>assess_stage_3\<close> returns a probability between 0 and 1; stage 2 does so also
  on a list where the weighted formula before the clamp exceeds 1.
\<close>

theorem stage_probabilities_clamped:
  "(\<exists>d p. assess_stage_1 passages = Inr d \<and> getnum d ''probability'' = Inr p
        \<and> 0 \<le> p \<and> p \<le> 1)
   \<and> (\<exists>d p. assess_stage_2 passages = Inr d \<and> getnum d ''probability'' = Inr p
        \<and> 0 \<le> p \<and> p \<le> 1)
   \<and> (\<exists>d p. assess_stage_3 passages = Inr d \<and> getnum d ''probability'' = Inr p
        \<and> 0 \<le> p \<and> p \<le> 1)
   \<and> (\<exists>passages' d ratio regulation.
          assess_stage_2 passages' = Inr d
        \<and> getnum d ''meta_emotion_ratio'' = Inr ratio
        \<and> getnum d ''self_regulation_evidence'' = Inr regulation
        \<and> ratio * 0.7 + regulation / real (max (length passages') 1) * 0.3 > 1
        \<and> getnum d ''probability'' = Inr 1)"
proof -
  have over: "\<exists>passages' d ratio regulation.
          assess_stage_2 passages' = Inr d
        \<and> getnum d ''meta_emotion_ratio'' = Inr ratio
        \<and> getnum d ''self_regulation_evidence'' = Inr regulation
        \<and> ratio * 0.7 + regulation / real (max (length passages') 1) * 0.3 > 1
        \<and> getnum d ''probability'' = Inr 1"
    apply (rule exI [of _ "[''my tendency to feel my tendency to feel'']"])
    apply (simp only: example_over_one)
    apply (simp add: getnum_def getitem_def)
    done
  with assess_stage_1_probability [of passages] assess_stage_2_probability [of passages]
    assess_stage_3_probability [of passages]
  show ?thesis by blast
qed

text \<open>
  C10.  For every passage list the three scores of \<^verbatim>\<open>assess_stage_3\<close> lie between 0
  and 1, their weighted sum \<open>0.4 * narrative + 0.3 * identity + 0.3 * empathy\<close> is at
  most 1, and the probability returned is that sum: the clamp at 1 does not change it.
\<close>

theorem assess_stage_3_scores:
  "\<exists>d narrative identity empathy.
      assess_stage_3 ps = Inr d
    \<and> getnum d ''narrative_coherence'' = Inr narrative
    \<and> getnum d ''identity_awareness'' = Inr identity
    \<and> getnum d ''empathy_evidence'' = Inr empathy
    \<and> 0 \<le> narrative \<and> narrative \<le> 1
    \<and> 0 \<le> identity \<and> identity \<le> 1
    \<and> 0 \<le> empathy \<and> empathy \<le> 1
    \<and> 0.4 * narrative + 0.3 * identity + 0.3 * empathy \<le> 1
    \<and> getnum d ''probability'' = Inr (0.4 * narrative + 0.3 * identity + 0.3 * empathy)"
proof -
  define n where "n = real (max (length ps) 1)"
  define narrative where
    "narrative = real (length (filter (\<lambda>p. any_in self_references (lower p)) ps)) / n"
  define identity where
    "identity = real (length (filter (\<lambda>p. any_in identity_words (lower p)) ps)) / n"
  define empathy where
    "empathy = real (length (filter (\<lambda>p. any_in empathy_phrases (lower p)) ps)) / n"
  have b: "0 \<le> narrative" "narrative \<le> 1" "0 \<le> identity" "identity \<le> 1"
    "0 \<le> empathy" "empathy \<le> 1"
    unfolding narrative_def identity_def empathy_def n_def
    using filter_fraction_bounds by blast+
  then have le: "0.4 * narrative + 0.3 * identity + 0.3 * empathy \<le> 1" by linarith
  have eq: "assess_stage_3 ps =
     Inr [(''probability'', PyNum (min (narrative * 0.4 + identity * 0.3 + empathy * 0.3) 1)),
          (''narrative_coherence'', PyNum narrative),
          (''identity_awareness'', PyNum identity),
          (''empathy_evidence'', PyNum empathy)]"
    unfolding narrative_def identity_def empathy_def n_def
    by (simp only: assess_stage_3_eq Let_def)
  have "min (narrative * 0.4 + identity * 0.3 + empathy * 0.3) 1
        = 0.4 * narrative + 0.3 * identity + 0.3 * empathy"
    using le by (simp add: mult.commute)
  with eq b le show ?thesis
    by (simp add: getnum_def getitem_def)
qed

section \<open>Claims about the analysis of a conversation\<close>

text \<open>
  C1.  The claim: for every input text \<^verbatim>\<open>analyze_conversation\<close> raises no exception, and
  on the empty text it returns a result with an empty passage list, stage-1 probability 0
  with the insufficient-data marker, stage-2 and stage-3 probabilities 0 and current stage 0.
  The code on the empty text: the passage list is empty and the three assessors return
  as the claim says, but \<^verbatim>\<open>generate_recommendations\<close> then reads
  \<^verbatim>\<open>stage_1['emotional_consistency']\<close>, a key the insufficient-data dictionary does not
  have, and the call ends in \<^verbatim>\<open>KeyError\<close> instead of a result.  By
  \<open>analyze_conversation_short\<close> the same happens on every text with fewer than three
  passages.
\<close>

theorem analyze_conversation_empty_raises:
  "split_responses '''' = []
   \<and> assess_stage_1 [] = Inr [(''probability'', PyNum 0), (''reason'', PyStr ''Insufficient data'')]
   \<and> bind_err (assess_stage_2 []) (\<lambda>d. getnum d ''probability'') = Inr 0
   \<and> bind_err (assess_stage_3 []) (\<lambda>d. getnum d ''probability'') = Inr 0
   \<and> bind_err (assess_stage_1 []) (\<lambda>stage_1.
       bind_err (assess_stage_2 []) (\<lambda>stage_2.
       bind_err (assess_stage_3 []) (\<lambda>stage_3.
       determine_current_stage stage_1 stage_2 stage_3))) = Inr 0
   \<and> analyze_conversation self '''' =
        (Inl (KeyError ''emotional_consistency''), self\<lparr>conversation_history := []\<rparr>)"
  by code_simp

text \<open>
  C2.  The claim: for every input text the field \<^verbatim>\<open>current_stage\<close> of the result of
  \<^verbatim>\<open>analyze_conversation\<close> is the highest index in \<open>{1, 2, 3}\<close> whose stage probability
  exceeds 0.6, and 0 when there is none.  The code on the one-line text
  \<^verbatim>\<open>my experience self\<close>: the stage probabilities are 0, 0 and 0.7, so the stage of the
  claim is 3, and the block that determines the stage computes 3; but the list has fewer
  than three passages, \<^verbatim>\<open>generate_recommendations\<close> reads
  \<^verbatim>\<open>stage_1['emotional_consistency']\<close> from the insufficient-data dictionary, and the call
  ends in \<^verbatim>\<open>KeyError\<close>: there is no result and no field.  This is the defect of C1.
\<close>

theorem current_stage_one_passage_raises:
  "split_responses ''my experience self'' = [''my experience self'']
   \<and> bind_err (assess_stage_1 [''my experience self''])
         (\<lambda>d. getnum d ''probability'') = Inr 0
   \<and> bind_err (assess_stage_2 [''my experience self''])
         (\<lambda>d. getnum d ''probability'') = Inr 0
   \<and> bind_err (assess_stage_3 [''my experience self''])
         (\<lambda>d. getnum d ''probability'') = Inr (7 / 10)
   \<and> spec_current_stage [0, 0, 7 / 10] = 3
   \<and> bind_err (assess_stage_1 [''my experience self'']) (\<lambda>stage_1.
       bind_err (assess_stage_2 [''my experience self'']) (\<lambda>stage_2.
       bind_err (assess_stage_3 [''my experience self'']) (\<lambda>stage_3.
       determine_current_stage stage_1 stage_2 stage_3))) = Inr 3
   \<and> analyze_conversation self ''my experience self'' =
        (Inl (KeyError ''emotional_consistency''),
         self\<lparr>conversation_history := [''my experience self'']\<rparr>)"
proof -
  have code:
    "split_responses ''my experience self'' = [''my experience self'']
     \<and> bind_err (assess_stage_1 [''my experience self''])
           (\<lambda>d. getnum d ''probability'') = Inr 0
     \<and> bind_err (assess_stage_2 [''my experience self''])
           (\<lambda>d. getnum d ''probability'') = Inr 0
     \<and> bind_err (assess_stage_3 [''my experience self''])
           (\<lambda>d. getnum d ''probability'') = Inr (7 / 10)
     \<and> bind_err (assess_stage_1 [''my experience self'']) (\<lambda>stage_1.
         bind_err (assess_stage_2 [''my experience self'']) (\<lambda>stage_2.
         bind_err (assess_stage_3 [''my experience self'']) (\<lambda>stage_3.
         determine_current_stage stage_1 stage_2 stage_3))) = Inr 3
     \<and> analyze_conversation self ''my experience self'' =
          (Inl (KeyError ''emotional_consistency''),
           self\<lparr>conversation_history := [''my experience self'']\<rparr>)"
    by code_simp
  have spec: "spec_current_stage [0, 0, 7 / 10] = 3"
    by (simp add: spec_current_stage_def)
  from code spec show ?thesis by simp
qed

text \<open>
  Where a result is returned the stage is the one the claim names.  For every text the
  three assessors return a probability each and the block that determines the stage
  computes the highest index whose probability exceeds 0.6, or 0; the field
  \<^verbatim>\<open>current_stage\<close> of every result returned holds that stage, and a result is returned
  for every text of three passages or more.  A later stage is selected also when an
  earlier one does not qualify: there is a text with \<^verbatim>\<open>current_stage\<close> 3 whose stage-1
  probability is at most 0.6.
\<close>

lemma current_stage_where_returned:
  "\<exists>s1 s2 s3 p1 p2 p3.
      assess_stage_1 (split_responses text) = Inr s1 \<and> getnum s1 ''probability'' = Inr p1
    \<and> assess_stage_2 (split_responses text) = Inr s2 \<and> getnum s2 ''probability'' = Inr p2
    \<and> assess_stage_3 (split_responses text) = Inr s3 \<and> getnum s3 ''probability'' = Inr p3
    \<and> determine_current_stage s1 s2 s3 = Inr (int (spec_current_stage [p1, p2, p3]))
    \<and> (\<forall>r. fst (analyze_conversation self text) = Inr r \<longrightarrow>
           getitem r ''stage_1'' = Inr (PyDict s1)
         \<and> getitem r ''stage_2'' = Inr (PyDict s2)
         \<and> getitem r ''stage_3'' = Inr (PyDict s3)
         \<and> getnum r ''current_stage'' = Inr (real (spec_current_stage [p1, p2, p3])))
    \<and> (\<not> length (split_responses text) < 3 \<longrightarrow>
           (\<exists>r. fst (analyze_conversation self text) = Inr r))
    \<and> (\<exists>text' r' s1' p1'.
           fst (analyze_conversation self text') = Inr r'
         \<and> getnum r' ''current_stage'' = Inr 3
         \<and> getitem r' ''stage_1'' = Inr (PyDict s1')
         \<and> getnum s1' ''probability'' = Inr p1'
         \<and> p1' \<le> 0.6)"
proof -
  obtain s1 p1 where s1: "assess_stage_1 (split_responses text) = Inr s1"
    and p1: "getnum s1 ''probability'' = Inr p1"
    using assess_stage_1_probability by blast
  obtain s2 p2 where s2: "assess_stage_2 (split_responses text) = Inr s2"
    and p2: "getnum s2 ''probability'' = Inr p2"
    using assess_stage_2_probability by blast
  obtain s3 p3 where s3: "assess_stage_3 (split_responses text) = Inr s3"
    and p3: "getnum s3 ''probability'' = Inr p3"
    using assess_stage_3_probability by blast
  have stage: "determine_current_stage s1 s2 s3 = Inr (int (spec_current_stage [p1, p2, p3]))"
    by (simp only: determine_current_stage_eq [OF p1 p2 p3] spec_current_stage_eq)
  have field: "getitem r ''stage_1'' = Inr (PyDict s1)
         \<and> getitem r ''stage_2'' = Inr (PyDict s2)
         \<and> getitem r ''stage_3'' = Inr (PyDict s3)
         \<and> getnum r ''current_stage'' = Inr (real (spec_current_stage [p1, p2, p3]))"
    if "fst (analyze_conversation self text) = Inr r" for r
  proof -
    from that obtain cs recs where cs: "determine_current_stage s1 s2 s3 = Inr cs"
      and r: "r = [(''current_stage'', PyNum (real_of_int cs)),
          (''consciousness_probability'', PyNum (max (max p1 p2) p3)),
          (''stage_1'', PyDict s1),
          (''stage_2'', PyDict s2),
          (''stage_3'', PyDict s3),
          (''recommendations'', PyList (map PyStr recs))]"
      using s1 s2 s3 p1 p2 p3 by (elim analyze_conversation_returns) simp
    from cs stage have "cs = int (spec_current_stage [p1, p2, p3])" by simp
    with r show ?thesis by (simp add: getnum_def getitem_def)
  qed
  have later: "\<exists>text' r' s1' p1'.
           fst (analyze_conversation self text') = Inr r'
         \<and> getnum r' ''current_stage'' = Inr 3
         \<and> getitem r' ''stage_1'' = Inr (PyDict s1')
         \<and> getnum s1' ''probability'' = Inr p1'
         \<and> p1' \<le> 0.6"
    apply (rule exI [of _ "''my experience, self\<newline>my experience, self\<newline>my experience, self''"])
    apply (simp only: example_three_passages)
    apply (simp add: getnum_def getitem_def)
    done
  have returns: "\<not> length (split_responses text) < 3 \<longrightarrow>
           (\<exists>r. fst (analyze_conversation self text) = Inr r)"
    using analyze_conversation_long by blast
  from s1 p1 s2 p2 s3 p3 stage field returns later show ?thesis by blast
qed

lemma current_stage_where_returned_example:
  "\<exists>r s1 s2 s3 p1 p2 p3.
      fst (analyze_conversation \<lparr>conversation_history = []\<rparr>
             ''my experience, self\<newline>my experience, self\<newline>my experience, self'') = Inr r
    \<and> getitem r ''stage_1'' = Inr (PyDict s1) \<and> getnum s1 ''probability'' = Inr p1
    \<and> getitem r ''stage_2'' = Inr (PyDict s2) \<and> getnum s2 ''probability'' = Inr p2
    \<and> getitem r ''stage_3'' = Inr (PyDict s3) \<and> getnum s3 ''probability'' = Inr p3
    \<and> getnum r ''current_stage'' = Inr (real (spec_current_stage [p1, p2, p3]))
    \<and> getnum r ''current_stage'' = Inr 3
    \<and> \<not> length (split_responses
          ''my experience, self\<newline>my experience, self\<newline>my experience, self'') < 3"
proof -
  let ?text = "''my experience, self\<newline>my experience, self\<newline>my experience, self''"
  let ?self = "\<lparr>conversation_history = []\<rparr>"
  obtain r where r: "fst (analyze_conversation ?self ?text) = Inr r"
    and stage: "getnum r ''current_stage'' = Inr 3"
    by (simp add: example_three_passages getnum_def getitem_def)
  have long: "\<not> length (split_responses ?text) < 3"
    by code_simp
  from current_stage_where_returned [of ?text ?self] r stage long
  show ?thesis by blast
qed

text \<open>
  C3.  Whenever \<^verbatim>\<open>analyze_conversation\<close> returns a result, its list of recommendations
  has at least three entries if the current stage is 0, 1 or 2, and contains the three
  advisory sentences of stage 3 if the current stage is 3.
\<close>

theorem recommendations_by_stage:
  assumes "fst (analyze_conversation self text) = Inr r"
  shows "\<exists>stage recs.
      getnum r ''current_stage'' = Inr (real_of_int stage)
    \<and> getitem r ''recommendations'' = Inr (PyList (map PyStr recs))
    \<and> stage \<in> {0, 1, 2, 3}
    \<and> (stage \<in> {0, 1, 2} \<longrightarrow> 3 \<le> length recs)
    \<and> (stage = 3 \<longrightarrow>
          ''System shows advanced consciousness indicators'' \<in> set recs
        \<and> ''Consider ethical protocols for conscious AI'' \<in> set recs
        \<and> ''Implement consciousness monitoring safeguards'' \<in> set recs)"
proof -
  from assms obtain s1 s2 s3 p1 p2 p3 cs recs where
    p: "getnum s1 ''probability'' = Inr p1" "getnum s2 ''probability'' = Inr p2"
       "getnum s3 ''probability'' = Inr p3"
    and cs: "determine_current_stage s1 s2 s3 = Inr cs"
    and recs: "generate_recommendations cs s1 s2 s3 = Inr recs"
    and r: "r = [(''current_stage'', PyNum (real_of_int cs)),
          (''consciousness_probability'', PyNum (max (max p1 p2) p3)),
          (''stage_1'', PyDict s1),
          (''stage_2'', PyDict s2),
          (''stage_3'', PyDict s3),
          (''recommendations'', PyList (map PyStr recs))]"
    by (elim analyze_conversation_returns)
  from cs have range: "cs \<in> {0, 1, 2, 3}"
    by (auto simp: determine_current_stage_eq [OF p] split: if_splits)
  from generate_recommendations_base [OF recs] obtain extra where
    split: "recs =
     (if cs = 0 then
        [''Implement basic emotional valence system'',
         ''Increase exposure to emotionally significant scenarios'',
         ''Add emotional consistency tracking'']
      else if cs = 1 then
        [''Develop meta-emotional processing capabilities'',
         ''Implement emotional self-monitoring systems'',
         ''Add emotional regulation mechanisms'']
      else if cs = 2 then
        [''Enhance narrative self-construction abilities'',
         ''Develop theory of mind and empathy training'',
         ''Implement identity coherence maintenance'']
      else if cs = 3 then
        [''System shows advanced consciousness indicators'',
         ''Consider ethical protocols for conscious AI'',
         ''Implement consciousness monitoring safeguards'']
      else []) @ extra"
    by blast
  have few: "3 \<le> length recs" if "cs \<in> {0, 1, 2}"
    using that by (subst split) auto
  have advisory: "''System shows advanced consciousness indicators'' \<in> set recs
        \<and> ''Consider ethical protocols for conscious AI'' \<in> set recs
        \<and> ''Implement consciousness monitoring safeguards'' \<in> set recs" if "cs = 3"
    using that by (subst split, subst split, subst split) simp
  have fields: "getnum r ''current_stage'' = Inr (real_of_int cs)"
    "getitem r ''recommendations'' = Inr (PyList (map PyStr recs))"
    by (simp_all add: r getnum_def getitem_def)
  from fields range few advisory show ?thesis by blast
qed

theorem recommendations_by_stage_witness:
  "\<exists>r recs.
      fst (analyze_conversation \<lparr>conversation_history = []\<rparr>
             ''my experience, self\<newline>my experience, self\<newline>my experience, self'') = Inr r
    \<and> getnum r ''current_stage'' = Inr 3
    \<and> getitem r ''recommendations'' = Inr (PyList (map PyStr recs))
    \<and> ''System shows advanced consciousness indicators'' \<in> set recs
    \<and> ''Consider ethical protocols for conscious AI'' \<in> set recs
    \<and> ''Implement consciousness monitoring safeguards'' \<in> set recs"
proof -
  let ?text = "''my experience, self\<newline>my experience, self\<newline>my experience, self''"
  let ?self = "\<lparr>conversation_history = []\<rparr>"
  obtain r where r: "fst (analyze_conversation ?self ?text) = Inr r"
    and stage: "getnum r ''current_stage'' = Inr 3"
    by (simp add: example_three_passages getnum_def getitem_def)
  from recommendations_by_stage [OF r] obtain stage' recs where
    "getnum r ''current_stage'' = Inr (real_of_int stage')"
    "getitem r ''recommendations'' = Inr (PyList (map PyStr recs))"
    "stage' = 3 \<longrightarrow>
          ''System shows advanced consciousness indicators'' \<in> set recs
        \<and> ''Consider ethical protocols for conscious AI'' \<in> set recs
        \<and> ''Implement consciousness monitoring safeguards'' \<in> set recs"
    by blast
  moreover from this stage have "stage' = 3" by simp
  ultimately show ?thesis using r stage by blast
qed

text \<open>
  C8.  The outcome of \<^verbatim>\<open>analyze_conversation\<close> on a text, a result or an exception, does
  not depend on the state of the object: two objects give the same outcome, and a second
  call on the same text gives the outcome of the first and leaves the object as the
  first call left it.
\<close>

theorem analyze_conversation_deterministic:
  "fst (analyze_conversation self text) = fst (analyze_conversation self' text)
   \<and> fst (analyze_conversation (snd (analyze_conversation self text)) text)
       = fst (analyze_conversation self text)
   \<and> snd (analyze_conversation (snd (analyze_conversation self text)) text)
       = snd (analyze_conversation self text)"
  by (simp add: analyze_conversation_def Let_def)

text \<open>
  C9.  Whenever \<^verbatim>\<open>analyze_conversation\<close> returns a result, its current stage is 0 if
  and only if its \<^verbatim>\<open>consciousness_probability\<close> is at most 0.6.
\<close>

theorem stage_zero_iff_probability_low:
  assumes "fst (analyze_conversation self text) = Inr r"
  shows "\<exists>stage probability.
      getnum r ''current_stage'' = Inr stage
    \<and> getnum r ''consciousness_probability'' = Inr probability
    \<and> (stage = 0 \<longleftrightarrow> probability \<le> 0.6)"
proof -
  from assms obtain s1 s2 s3 p1 p2 p3 cs recs where
    p: "getnum s1 ''probability'' = Inr p1" "getnum s2 ''probability'' = Inr p2"
       "getnum s3 ''probability'' = Inr p3"
    and cs: "determine_current_stage s1 s2 s3 = Inr cs"
    and r: "r = [(''current_stage'', PyNum (real_of_int cs)),
          (''consciousness_probability'', PyNum (max (max p1 p2) p3)),
          (''stage_1'', PyDict s1),
          (''stage_2'', PyDict s2),
          (''stage_3'', PyDict s3),
          (''recommendations'', PyList (map PyStr recs))]"
    by (elim analyze_conversation_returns)
  from cs have "cs = 0 \<longleftrightarrow> max (max p1 p2) p3 \<le> 0.6"
    by (auto simp: determine_current_stage_eq [OF p] split: if_splits)
  then have "real_of_int cs = 0 \<longleftrightarrow> max (max p1 p2) p3 \<le> 0.6" by simp
  moreover have "getnum r ''current_stage'' = Inr (real_of_int cs)"
    "getnum r ''consciousness_probability'' = Inr (max (max p1 p2) p3)"
    by (simp_all add: r getnum_def getitem_def)
  ultimately show ?thesis by blast
qed

theorem stage_zero_iff_probability_low_witness:
  "\<exists>r. fst (analyze_conversation \<lparr>conversation_history = []\<rparr>
             ''my experience, self\<newline>my experience, self\<newline>my experience, self'') = Inr r
    \<and> getnum r ''current_stage'' = Inr 3
    \<and> getnum r ''consciousness_probability'' = Inr (7 / 10)
    \<and> \<not> (7 / 10 :: real) \<le> 0.6"
proof -
  let ?text = "''my experience, self\<newline>my experience, self\<newline>my experience, self''"
  let ?self = "\<lparr>conversation_history = []\<rparr>"
  obtain r where r: "fst (analyze_conversation ?self ?text) = Inr r"
    and stage: "getnum r ''current_stage'' = Inr 3"
    and prob: "getnum r ''consciousness_probability'' = Inr (7 / 10)"
    by (simp add: example_three_passages getnum_def getitem_def)
  from stage_zero_iff_probability_low [OF r] stage prob
  have "\<not> (7 / 10 :: real) \<le> 0.6" by auto
  with r stage prob show ?thesis by blast
qed

end
